theory Spec2Isabelle
  imports Main "HOL-Library.Sublist"
begin

section \<open>Go values used by package config\<close>

text \<open>
  A Go string is a sequence of bytes, so it is a \<open>char list\<close> here. The input of
  \<open>Parse\<close> is a \<open>map[string]string\<close>: a partial map. Indexing a Go map at an
  absent key gives the zero value of the element type, the empty string.
\<close>

type_synonym go_map = "string \<rightharpoonup> string"

definition index_map :: "go_map \<Rightarrow> string \<Rightarrow> string" where
  "index_map cfg k = (case cfg k of None \<Rightarrow> [] | Some v \<Rightarrow> v)"

text \<open>
  \<open>strings.ToLower\<close> on an ASCII string maps the letters A to Z to a to z and keeps
  every other byte. The program lowers only a locale name and its own message templates
  filled with a struct field name, all ASCII, so only that path is modelled.
\<close>

definition lower :: "char \<Rightarrow> char" where
  "lower c =
     (let n = (of_char c :: nat)
      in if 65 \<le> n \<and> n \<le> 90 then char_of (n + 32) else c)"

definition ToLower :: "string \<Rightarrow> string" where
  "ToLower s = map lower s"

text \<open>\<open>strings.Contains s substr\<close>: \<open>substr\<close> occurs in \<open>s\<close> as a contiguous run.\<close>

definition Contains :: "string \<Rightarrow> string \<Rightarrow> bool" where
  "Contains s substr = sublist substr s"

text \<open>\<open>strings.Count\<close> for a one-byte separator, and \<open>strings.Index\<close> (\<open>None\<close> is -1).\<close>

definition Count :: "string \<Rightarrow> char \<Rightarrow> nat" where
  "Count s c = length (filter (\<lambda>d. d = c) s)"

fun Index :: "string \<Rightarrow> string \<Rightarrow> nat option" where
  "Index [] substr = (if substr = [] then Some 0 else None)"
| "Index (c # s) substr =
     (if prefix substr (c # s) then Some 0 else map_option Suc (Index s substr))"

text \<open>\<open>strconv.Itoa\<close> on a non-negative integer.\<close>

function Itoa :: "nat \<Rightarrow> string" where
  "Itoa n =
     (if n < 10 then [''0123456789'' ! n]
      else Itoa (n div 10) @ [''0123456789'' ! (n mod 10)])"
  by pat_completeness auto
termination
  by (relation "measure (\<lambda>n. n)") auto

declare Itoa.simps [simp del]

text \<open>
  A run-time panic of the Go program is a value of its own: every function that can
  panic returns \<open>Inl\<close> of it, and \<open>Inr\<close> of its result when it returns.
\<close>

datatype panic = IndexOutOfRange | SliceBoundsOutOfRange

text \<open>
  The values of Go's \<open>error\<close> interface that this package can hold: \<open>errors.New\<close>
  strings, the aggregate of \<open>go.uber.org/multierr\<close>, and the error structs of the
  universal translator. A nil \<open>error\<close> is \<open>None\<close> of \<open>error option\<close>.
\<close>

datatype error =
    errorString string
  | multiError "error list"
  | ErrConflictingTranslation string string string
  | ErrMissingBracket string string string
  | ErrBadParamSyntax string string string string
  | ErrUnknowTranslation string

text \<open>
  \<open>multiError.Error()\<close> writes the texts of its errors on one line, \<open>; \<close> between
  them. The texts of the translator's own error structs are left out: \<open>Validate\<close> never
  returns one, which \<open>registerTranslations_eq\<close> shows.
\<close>

fun writeSingleline :: "string list \<Rightarrow> string" where
  "writeSingleline [] = []"
| "writeSingleline [item] = item"
| "writeSingleline (item # next_item # items) =
     item @ ''; '' @ writeSingleline (next_item # items)"

fun Error :: "error \<Rightarrow> string" where
  "Error (errorString s) = s"
| "Error (multiError errs) = writeSingleline (map Error errs)"

text \<open>
  \<open>multierr.Append left right\<close>: a nil side gives the other side; otherwise the result
  is one flat \<open>multiError\<close>, the errors of the left followed by those of the right.
\<close>

fun errors_of :: "error \<Rightarrow> error list" where
  "errors_of (multiError errs) = errs"
| "errors_of e = [e]"

fun Append :: "error option \<Rightarrow> error option \<Rightarrow> error option" where
  "Append None right = right"
| "Append (Some l) None = Some l"
| "Append (Some l) (Some r) = Some (multiError (errors_of l @ errors_of r))"

section \<open>Counting characters: \<open>utf8.RuneCountInString\<close>\<close>

text \<open>
  The validator's \<open>max\<close> tag compares the number of runes of a string field, not its
  number of bytes. \<open>first_byte\<close> joins the tables \<open>first\<close> and \<open>acceptRanges\<close> of
  package \<open>unicode/utf8\<close>: for a leading byte of a multi-byte sequence it gives the
  size of the sequence and the range accepted for the second byte; \<open>None\<close> is the
  entry \<open>xx\<close> of an invalid leading byte.
\<close>

definition first_byte :: "nat \<Rightarrow> (nat \<times> nat \<times> nat) option" where
  "first_byte b =
     (if 0xC2 \<le> b \<and> b \<le> 0xDF then Some (2, 0x80, 0xBF)
      else if b = 0xE0 then Some (3, 0xA0, 0xBF)
      else if b = 0xED then Some (3, 0x80, 0x9F)
      else if 0xE1 \<le> b \<and> b \<le> 0xEF then Some (3, 0x80, 0xBF)
      else if b = 0xF0 then Some (4, 0x90, 0xBF)
      else if 0xF1 \<le> b \<and> b \<le> 0xF3 then Some (4, 0x80, 0xBF)
      else if b = 0xF4 then Some (4, 0x80, 0x8F)
      else None)"

definition byte_at :: "string \<Rightarrow> nat \<Rightarrow> nat" where
  "byte_at s i = of_char (s ! i)"

definition rune_size :: "string \<Rightarrow> nat" where
  "rune_size s =
     (let c = byte_at s 0
      in if c < 0x80 then 1
         else case first_byte c of
           None \<Rightarrow> 1
         | Some (sz, lo, hi) \<Rightarrow>
             if length s < sz then 1
             else if byte_at s 1 < lo \<or> hi < byte_at s 1 then 1
             else if sz = 2 then 2
             else if byte_at s 2 < 0x80 \<or> 0xBF < byte_at s 2 then 1
             else if sz = 3 then 3
             else if byte_at s 3 < 0x80 \<or> 0xBF < byte_at s 3 then 1
             else 4)"

function RuneCountInString :: "string \<Rightarrow> nat" where
  "RuneCountInString s =
     (if s = [] then 0 else Suc (RuneCountInString (drop (rune_size s) s)))"
  by pat_completeness auto
termination
  by (relation "measure length")
     (auto simp: rune_size_def Let_def split: option.splits)

declare RuneCountInString.simps [simp del]

section \<open>The universal translator\<close>

text \<open>
  What package config uses of \<open>go-playground/locales\<close> and
  \<open>go-playground/universal-translator\<close>. A locale (\<open>en.New()\<close>) is known by the
  name its method \<open>Locale\<close> returns. A translator wraps a locale and holds the
  translations added to it: for each key the template and, in pairs, the positions where
  each placeholder \<open>{0}\<close>, \<open>{1}\<close>, ... starts and ends.
\<close>

type_synonym locales_Translator = string

definition en_New :: locales_Translator where
  "en_New = ''en''"

record transText =
  tt_text :: string
  tt_indexes :: "nat list"

record translator =
  Locale :: string
  tr_translations :: "string \<rightharpoonup> transText"

definition newTranslator :: "locales_Translator \<Rightarrow> translator" where
  "newTranslator l = \<lparr>Locale = l, tr_translations = Map.empty\<rparr>"

record UniversalTranslator =
  translators :: "string \<rightharpoonup> translator"
  fallback :: translator

text \<open>
  \<open>ut.New fb supported\<close> registers a fresh translator for every supported locale under
  its lower-cased name; the fallback is a translator of the locale \<open>fb\<close>.
  \<open>GetTranslator\<close> returns the registered translator, or the fallback and false.
\<close>

definition ut_New :: "locales_Translator \<Rightarrow> locales_Translator list \<Rightarrow> UniversalTranslator" where
  "ut_New fb supportedLocales =
     \<lparr>translators =
        fold (\<lambda>v m. m(ToLower (Locale (newTranslator v)) \<mapsto> newTranslator v))
          supportedLocales Map.empty,
      fallback = newTranslator fb\<rparr>"

definition GetTranslator :: "UniversalTranslator \<Rightarrow> string \<Rightarrow> translator \<times> bool" where
  "GetTranslator t l =
     (case translators t (ToLower l) of
        Some tr \<Rightarrow> (tr, True)
      | None \<Rightarrow> (fallback t, False))"

text \<open>
  \<open>Add key text override\<close> refuses a key that is already there unless \<open>override\<close>
  is set, a text whose numbers of opening and closing braces differ, and a text with
  \<open>lb\<close> opening braces in which one of \<open>{0}\<close>, ..., \<open>{lb-1}\<close> does not occur;
  otherwise it stores the text with the positions of the placeholders. The translator is
  returned with the error, since the Go method updates it in place.
\<close>

fun paramIndexes :: "string \<Rightarrow> nat list \<Rightarrow> string + nat list" where
  "paramIndexes tmpl [] = Inr []"
| "paramIndexes tmpl (i # rest) =
     (let s = ''{'' @ Itoa i @ ''}''
      in case Index tmpl s of
           None \<Rightarrow> Inl s
         | Some idx \<Rightarrow>
             (case paramIndexes tmpl rest of
                Inl e \<Rightarrow> Inl e
              | Inr idxs \<Rightarrow> Inr (idx # (idx + length s) # idxs)))"

definition Add :: "translator \<Rightarrow> string \<Rightarrow> string \<Rightarrow> bool \<Rightarrow> error option \<times> translator" where
  "Add t key tmpl override =
     (if tr_translations t key \<noteq> None \<and> \<not> override
      then (Some (ErrConflictingTranslation (Locale t) key tmpl), t)
      else
        let lb = Count tmpl (CHR ''{''); rb = Count tmpl (CHR ''}'')
        in if lb \<noteq> rb then (Some (ErrMissingBracket (Locale t) key tmpl), t)
           else case paramIndexes tmpl [0..<lb] of
                  Inl s \<Rightarrow> (Some (ErrBadParamSyntax (Locale t) s key tmpl), t)
                | Inr idxs \<Rightarrow>
                    (None,
                     t\<lparr>tr_translations :=
                         (tr_translations t)(key \<mapsto> \<lparr>tt_text = tmpl, tt_indexes = idxs\<rparr>)\<rparr>))"

text \<open>
  \<open>T key params\<close> builds the translation: the pieces of the text between the stored
  positions, with the next parameter in place of each placeholder. An unknown key gives
  the empty text and an error. The Go loop slices the text and indexes \<open>params\<close> and
  the positions without a check of its own, so it can panic.
\<close>

fun T_loop :: "string \<Rightarrow> nat list \<Rightarrow> string list \<Rightarrow> nat \<Rightarrow> panic + string" where
  "T_loop tmpl [] params start =
     (if start \<le> length tmpl then Inr (drop start tmpl) else Inl SliceBoundsOutOfRange)"
| "T_loop tmpl (stop # idxs) params start =
     (if \<not> (start \<le> stop \<and> stop \<le> length tmpl) then Inl SliceBoundsOutOfRange
      else case params of
             [] \<Rightarrow> Inl IndexOutOfRange
           | p # ps \<Rightarrow>
               (case idxs of
                  [] \<Rightarrow> Inl IndexOutOfRange
                | start' # idxs' \<Rightarrow>
                    (case T_loop tmpl idxs' ps start' of
                       Inl e \<Rightarrow> Inl e
                     | Inr b \<Rightarrow> Inr (take (stop - start) (drop start tmpl) @ p @ b))))"

definition T :: "translator \<Rightarrow> string \<Rightarrow> string list \<Rightarrow> panic + (string \<times> error option)" where
  "T t key params =
     (case tr_translations t key of
        None \<Rightarrow> Inr ([], Some (ErrUnknowTranslation key))
      | Some tr \<Rightarrow>
          (case T_loop (tt_text tr) (tt_indexes tr) params 0 of
             Inl e \<Rightarrow> Inl e
           | Inr b \<Rightarrow> Inr (b, None)))"

section \<open>The validator\<close>

text \<open>
  What package config uses of \<open>go-playground/validator/v10\<close>. The tags on the
  fields of \<open>Config\<close> are \<open>required\<close>, \<open>url\<close> and \<open>max=63\<close>. A field error
  records the namespace, the name of the struct field and the tag that failed.
\<close>

datatype tag = Required_tag | Url_tag | Max_tag nat

fun tag_name :: "tag \<Rightarrow> string" where
  "tag_name Required_tag = ''required''"
| "tag_name Url_tag = ''url''"
| "tag_name (Max_tag n) = ''max''"

record fieldError =
  Namespace :: string
  Field :: string
  Tag :: string

type_synonym TranslationFunc = "translator \<Rightarrow> fieldError \<Rightarrow> panic + string"

type_synonym RegisterTranslationsFunc = "translator \<Rightarrow> error option \<times> translator"

text \<open>
  A validator holds the translation functions registered per tag. (In Go they are kept
  per translator first; \<open>Validate\<close> has exactly one translator.)
\<close>

record validator =
  transTagFunc :: "string \<rightharpoonup> TranslationFunc"

definition validator_New :: validator where
  "validator_New = \<lparr>transTagFunc = Map.empty\<rparr>"

definition RegisterTranslation ::
  "validator \<Rightarrow> string \<Rightarrow> translator \<Rightarrow> RegisterTranslationsFunc \<Rightarrow> TranslationFunc
     \<Rightarrow> error option \<times> validator \<times> translator" where
  "RegisterTranslation v tg tr registerFn translationFn =
     (case registerFn tr of
        (Some err, tr') \<Rightarrow> (Some err, v, tr')
      | (None, tr') \<Rightarrow>
          (None, v\<lparr>transTagFunc := (transTagFunc v)(tg \<mapsto> translationFn)\<rparr>, tr'))"

text \<open>
  The tags' checks on a string field. \<open>required\<close>: the field is not the zero value.
  \<open>url\<close>: the library's URL check, which rests on Go's \<open>net/url\<close> parser; it is a
  parameter \<open>isURL\<close> of the model, and every theorem holds for every such predicate.
  \<open>max=n\<close>: at most \<open>n\<close> runes.
\<close>

fun check_tag :: "(string \<Rightarrow> bool) \<Rightarrow> tag \<Rightarrow> string \<Rightarrow> bool" where
  "check_tag isURL Required_tag v = (v \<noteq> [])"
| "check_tag isURL Url_tag v = isURL v"
| "check_tag isURL (Max_tag n) v = (RuneCountInString v \<le> n)"

text \<open>
  The tags of one field are checked in the order written; the first one that fails is
  reported and the field's remaining tags are skipped.
\<close>

fun traverseField ::
  "(string \<Rightarrow> bool) \<Rightarrow> string \<Rightarrow> string \<Rightarrow> string \<Rightarrow> tag list \<Rightarrow> fieldError list" where
  "traverseField isURL ns name v [] = []"
| "traverseField isURL ns name v (t # ts) =
     (if check_tag isURL t v then traverseField isURL ns name v ts
      else [\<lparr>Namespace = ns @ name, Field = name, Tag = tag_name t\<rparr>])"

text \<open>
  \<open>fieldError.Error()\<close>, the text of a field error no translation is registered for,
  and \<open>fieldError.Translate\<close>.
\<close>

definition fieldError_Error :: "fieldError \<Rightarrow> string" where
  "fieldError_Error fe =
     ''Key: '' @ [CHR 0x27] @ Namespace fe @ [CHR 0x27] @
     '' Error:Field validation for '' @ [CHR 0x27] @ Field fe @ [CHR 0x27] @
     '' failed on the '' @ [CHR 0x27] @ Tag fe @ [CHR 0x27] @ '' tag''"

definition Translate :: "validator \<Rightarrow> translator \<Rightarrow> fieldError \<Rightarrow> panic + string" where
  "Translate v ut fe =
     (case transTagFunc v (Tag fe) of
        None \<Rightarrow> Inr (fieldError_Error fe)
      | Some fn \<Rightarrow> fn ut fe)"

section \<open>Package config\<close>

definition ConfigKeyURL :: string where
  "ConfigKeyURL = ''url''"

definition ConfigKeyTable :: string where
  "ConfigKeyTable = ''table''"

definition ConfigKeyKey :: string where
  "ConfigKeyKey = ''key''"

text \<open>
  The struct \<open>Config\<close> and, field by field in the order declared, its \<open>validate\<close>
  tags: \<open>required,url\<close> on \<open>URL\<close>, \<open>max=63\<close> on \<open>Table\<close> and on \<open>Key\<close>.
\<close>

record Config =
  URL :: string
  Table :: string
  Key :: string

definition Config_tags :: "Config \<Rightarrow> (string \<times> string \<times> tag list) list" where
  "Config_tags c =
     [(''URL'', URL c, [Required_tag, Url_tag]),
      (''Table'', Table c, [Max_tag 63]),
      (''Key'', Key c, [Max_tag 63])]"

text \<open>
  \<open>validate.Struct(c)\<close> walks the fields in that order and returns the field errors
  found; the empty list is the nil error.
\<close>

definition Struct :: "(string \<Rightarrow> bool) \<Rightarrow> Config \<Rightarrow> fieldError list" where
  "Struct isURL c =
     concat (map (\<lambda>(name, v, tags). traverseField isURL ''Config.'' name v tags)
       (Config_tags c))"

text \<open>
  The translation function that \<open>registerTranslations\<close> registers for each tag: the
  translation of the tag's key with the field name as its parameter, lower-cased; the
  error of \<open>T\<close> is dropped.
\<close>

definition lowered_T :: "string \<Rightarrow> TranslationFunc" where
  "lowered_T key ut fe =
     (case T ut key [Field fe] of
        Inl p \<Rightarrow> Inl p
      | Inr (t, _) \<Rightarrow> Inr (ToLower t))"

definition registerTranslations ::
  "validator \<Rightarrow> translator \<Rightarrow> error option \<times> validator \<times> translator" where
  \<open>registerTranslations validate uniTranslator =
     (case RegisterTranslation validate ''required'' uniTranslator
             (\<lambda>ut. Add ut ''required'' ''"{0}" config value must be set'' True)
             (lowered_T ''required'') of
        (Some err, v1, t1) \<Rightarrow> (Some err, v1, t1)
      | (None, v1, t1) \<Rightarrow>
          (case RegisterTranslation v1 ''url'' t1
                  (\<lambda>ut. Add ut ''url'' ''"{0}" config value must be a valid url'' True)
                  (lowered_T ''url'') of
             (Some err, v2, t2) \<Rightarrow> (Some err, v2, t2)
           | (None, v2, t2) \<Rightarrow>
               (case RegisterTranslation v2 ''max'' t2
                       (\<lambda>ut. Add ut ''max'' ''"{0}" config value is too long'' True)
                       (lowered_T ''max'') of
                  (Some err, v3, t3) \<Rightarrow> (Some err, v3, t3)
                | (None, v3, t3) \<Rightarrow> (None, v3, t3))))\<close>

text \<open>
  The loop of \<open>Validate\<close> over the validation errors: each one is translated, made an
  error with \<open>errors.New\<close> and appended to \<open>resultErr\<close>.
\<close>

fun collect ::
  "validator \<Rightarrow> translator \<Rightarrow> error option \<Rightarrow> fieldError list \<Rightarrow> panic + error option" where
  "collect validate uniTranslator resultErr [] = Inr resultErr"
| "collect validate uniTranslator resultErr (validationError # rest) =
     (case Translate validate uniTranslator validationError of
        Inl p \<Rightarrow> Inl p
      | Inr msg \<Rightarrow>
          collect validate uniTranslator
            (Append resultErr (Some (errorString msg))) rest)"

definition Validate :: "(string \<Rightarrow> bool) \<Rightarrow> Config \<Rightarrow> panic + error option" where
  "Validate isURL c =
     (let translator = en_New;
          uni = ut_New translator [translator];
          (uniTranslator, found) = GetTranslator uni ''en''
      in if \<not> found then Inr (Some (errorString ''translator not found''))
         else
           let validate = validator_New
           in case registerTranslations validate uniTranslator of
                (Some err, validate', uniTranslator') \<Rightarrow> Inr (Some err)
              | (None, validate', uniTranslator') \<Rightarrow>
                  if Struct isURL c \<noteq> []
                  then collect validate' uniTranslator' None (Struct isURL c)
                  else Inr None)"

text \<open>
  \<open>Parse\<close> returns a pair, as the Go function does: the configuration and the error.
  \<open>Config_zero\<close> is the composite literal \<open>Config{}\<close>.
\<close>

definition Config_zero :: Config where
  "Config_zero = \<lparr>URL = [], Table = [], Key = []\<rparr>"

definition Parse :: "(string \<Rightarrow> bool) \<Rightarrow> go_map \<Rightarrow> panic + (Config \<times> error option)" where
  "Parse isURL cfg =
     (let config = \<lparr>URL = index_map cfg ConfigKeyURL,
                     Table = index_map cfg ConfigKeyTable,
                     Key = index_map cfg ConfigKeyKey\<rparr>
      in case Validate isURL config of
           Inl p \<Rightarrow> Inl p
         | Inr (Some err) \<Rightarrow> Inr (Config_zero, Some err)
         | Inr None \<Rightarrow> Inr (config, None))"

section \<open>The specification's rules and messages\<close>

text \<open>
  The rule set as the specification words it, in the order of the fields: \<open>url\<close>
  non-empty (\<open>Required\<close>); \<open>url\<close>, if non-empty, a valid URL (\<open>InvalidURL\<close>);
  \<open>table\<close> of at most 63 characters and \<open>key\<close> of at most 63 characters
  (\<open>TooLong\<close>). A violation is the lower-case field name with the kind.
\<close>

datatype kind = Required | InvalidURL | TooLong

type_synonym violation = "string \<times> kind"

definition violations :: "(string \<Rightarrow> bool) \<Rightarrow> Config \<Rightarrow> violation list" where
  "violations isURL c =
     (if URL c = [] then [(''url'', Required)] else []) @
     (if URL c \<noteq> [] \<and> \<not> isURL (URL c) then [(''url'', InvalidURL)] else []) @
     (if 63 < RuneCountInString (Table c) then [(''table'', TooLong)] else []) @
     (if 63 < RuneCountInString (Key c) then [(''key'', TooLong)] else [])"

fun reason :: "kind \<Rightarrow> string" where
  "reason Required = ''must be set''"
| "reason InvalidURL = ''must be a valid url''"
| "reason TooLong = ''is too long''"

text \<open>
  The form of a message as the specification writes it, \<open>claimed_message\<close>, and the
  same with the field name between double quotes, \<open>quoted_message\<close>.
\<close>

definition claimed_message :: "violation \<Rightarrow> string" where
  "claimed_message v = fst v @ '' config value '' @ reason (snd v)"

definition quoted_message :: "violation \<Rightarrow> string" where
  "quoted_message v = [CHR 0x22] @ fst v @ [CHR 0x22] @ '' config value '' @ reason (snd v)"

text \<open>
  The aggregate of a list of messages: no error for none, the message's own error for
  one, a \<open>multiError\<close> of them in their order otherwise.
\<close>

fun aggregate :: "string list \<Rightarrow> error option" where
  "aggregate [] = None"
| "aggregate [m] = Some (errorString m)"
| "aggregate ms = Some (multiError (map errorString ms))"

text \<open>
  The specification's \<open>trimmed\<close>: the value without its leading and trailing white
  space (the ASCII white space of \<open>strings.TrimSpace\<close>).
\<close>

definition isSpace :: "char \<Rightarrow> bool" where
  "isSpace c = (c \<in> set [CHR 0x09, CHR 0x0A, CHR 0x0B, CHR 0x0C, CHR 0x0D, CHR '' ''])"

definition TrimSpace :: "string \<Rightarrow> string" where
  "TrimSpace s = rev (dropWhile isSpace (rev (dropWhile isSpace s)))"

text \<open>
  For evaluating the model on the specification's examples, an instance of the URL check
  that accepts the URL of the example and nothing else. On the strings used below (that
  URL, the empty string and \<open>not a url\<close>) it answers as the library's check does.
\<close>

definition isURL_example :: "string \<Rightarrow> bool" where
  "isURL_example s = (s = ''https://materialize.example.com'')"

section \<open>What \<open>Validate\<close> computes\<close>

text \<open>
  The translator \<open>en\<close> is found, the three registrations succeed on any validator and
  translator, and each of the four field errors \<open>Struct\<close> can report is translated
  to its message; so \<open>Validate\<close> returns the aggregate of the messages of the
  violated rules and never panics.
\<close>

lemma GetTranslator_en:
  "GetTranslator (ut_New en_New [en_New]) ''en'' = (newTranslator ''en'', True)"
  by (simp add: GetTranslator_def ut_New_def en_New_def newTranslator_def ToLower_def lower_def)

lemma Add_required:
  \<open>Add t ''required'' ''"{0}" config value must be set'' True =
     (None, t\<lparr>tr_translations := (tr_translations t)(''required'' \<mapsto>
        \<lparr>tt_text = ''"{0}" config value must be set'', tt_indexes = [1, 4]\<rparr>)\<rparr>)\<close>
  by (simp add: Add_def Count_def Let_def upt_rec Itoa.simps eval_nat_numeral)

lemma Add_url:
  \<open>Add t ''url'' ''"{0}" config value must be a valid url'' True =
     (None, t\<lparr>tr_translations := (tr_translations t)(''url'' \<mapsto>
        \<lparr>tt_text = ''"{0}" config value must be a valid url'', tt_indexes = [1, 4]\<rparr>)\<rparr>)\<close>
  by (simp add: Add_def Count_def Let_def upt_rec Itoa.simps eval_nat_numeral)

lemma Add_max:
  \<open>Add t ''max'' ''"{0}" config value is too long'' True =
     (None, t\<lparr>tr_translations := (tr_translations t)(''max'' \<mapsto>
        \<lparr>tt_text = ''"{0}" config value is too long'', tt_indexes = [1, 4]\<rparr>)\<rparr>)\<close>
  by (simp add: Add_def Count_def Let_def upt_rec Itoa.simps eval_nat_numeral)

lemma registerTranslations_eq:
  \<open>registerTranslations v t =
     (None,
      v\<lparr>transTagFunc := (transTagFunc v)
          (''required'' \<mapsto> lowered_T ''required'',
           ''url'' \<mapsto> lowered_T ''url'',
           ''max'' \<mapsto> lowered_T ''max'')\<rparr>,
      t\<lparr>tr_translations := (tr_translations t)
          (''required'' \<mapsto>
             \<lparr>tt_text = ''"{0}" config value must be set'', tt_indexes = [1, 4]\<rparr>,
           ''url'' \<mapsto>
             \<lparr>tt_text = ''"{0}" config value must be a valid url'', tt_indexes = [1, 4]\<rparr>,
           ''max'' \<mapsto>
             \<lparr>tt_text = ''"{0}" config value is too long'', tt_indexes = [1, 4]\<rparr>)\<rparr>)\<close>
  by (simp add: registerTranslations_def RegisterTranslation_def Add_required Add_url Add_max)

lemma Struct_eq:
  "Struct isURL c =
     (if URL c = [] then [\<lparr>Namespace = ''Config.URL'', Field = ''URL'', Tag = ''required''\<rparr>]
      else if isURL (URL c) then []
      else [\<lparr>Namespace = ''Config.URL'', Field = ''URL'', Tag = ''url''\<rparr>]) @
     (if RuneCountInString (Table c) \<le> 63 then []
      else [\<lparr>Namespace = ''Config.Table'', Field = ''Table'', Tag = ''max''\<rparr>]) @
     (if RuneCountInString (Key c) \<le> 63 then []
      else [\<lparr>Namespace = ''Config.Key'', Field = ''Key'', Tag = ''max''\<rparr>])"
  by (simp add: Struct_def Config_tags_def)

lemma ToLower_messages:
  \<open>ToLower ''"URL" config value must be set'' = ''"url" config value must be set''\<close>
  \<open>ToLower ''"URL" config value must be a valid url'' = ''"url" config value must be a valid url''\<close>
  \<open>ToLower ''"Table" config value is too long'' = ''"table" config value is too long''\<close>
  \<open>ToLower ''"Key" config value is too long'' = ''"key" config value is too long''\<close>
  by code_simp+

lemma Translate_registered:
  assumes "registerTranslations validator_New (newTranslator ''en'') = (None, v, t)"
  shows "Translate v t \<lparr>Namespace = ns, Field = ''URL'', Tag = ''required''\<rparr> =
           Inr (quoted_message (''url'', Required))"
    and "Translate v t \<lparr>Namespace = ns, Field = ''URL'', Tag = ''url''\<rparr> =
           Inr (quoted_message (''url'', InvalidURL))"
    and "Translate v t \<lparr>Namespace = ns, Field = ''Table'', Tag = ''max''\<rparr> =
           Inr (quoted_message (''table'', TooLong))"
    and "Translate v t \<lparr>Namespace = ns, Field = ''Key'', Tag = ''max''\<rparr> =
           Inr (quoted_message (''key'', TooLong))"
  using assms unfolding registerTranslations_eq
  by (auto simp add: Translate_def lowered_T_def T_def ToLower_messages
      quoted_message_def validator_New_def newTranslator_def)


lemma Validate_unfold:
  assumes "registerTranslations validator_New (newTranslator ''en'') = (None, v, t)"
  shows "Validate isURL c =
     (if Struct isURL c \<noteq> [] then collect v t None (Struct isURL c) else Inr None)"
  using assms by (simp add: Validate_def GetTranslator_en Let_def)


lemma Validate_eq:
  "Validate isURL c = Inr (aggregate (map quoted_message (violations isURL c)))"
proof -
  have r: "registerTranslations validator_New (newTranslator ''en'') =
      (None, fst (snd (registerTranslations validator_New (newTranslator ''en''))),
             snd (snd (registerTranslations validator_New (newTranslator ''en''))))"
    by (simp add: registerTranslations_eq)
  note tr = Translate_registered [OF r]
  note u = Validate_unfold [OF r]
  show ?thesis
    by (cases "URL c = []"; cases "isURL (URL c)";
        cases "RuneCountInString (Table c) \<le> 63"; cases "RuneCountInString (Key c) \<le> 63")
       (simp_all add: u Struct_eq tr violations_def)
qed


lemma Validate_returns: "\<exists>r. Validate isURL c = Inr r"
  by (simp add: Validate_eq)

lemma aggregate_None_iff: "aggregate ms = None \<longleftrightarrow> ms = []"
  by (cases ms rule: aggregate.cases) simp_all

lemma Error_aggregate:
  assumes "aggregate ms = Some e"
  shows "Error e = writeSingleline ms" and "map Error (errors_of e) = ms"
proof -
  have m: "map Error (map errorString xs) = xs" for xs
    by (induction xs) simp_all
  show "Error e = writeSingleline ms"
    using assms by (cases ms rule: aggregate.cases) (auto simp: m simp del: map_map)
  show "map Error (errors_of e) = ms"
    using assms by (cases ms rule: aggregate.cases) (auto simp: m simp del: map_map)
qed

lemma Contains_writeSingleline:
  "m \<in> set ms \<Longrightarrow> Contains (writeSingleline ms) m"
proof (induction ms rule: writeSingleline.induct)
  case 1
  then show ?case by simp
next
  case (2 item)
  then show ?case by (simp add: Contains_def)
next
  case (3 item next_item items)
  show ?case
  proof (cases "m = item")
    case True
    then show ?thesis by (simp add: Contains_def)
  next
    case False
    with 3 have "Contains (writeSingleline (next_item # items)) m" by simp
    then have "sublist m (writeSingleline (next_item # items))"
      by (simp add: Contains_def)
    then obtain ps ss where "writeSingleline (next_item # items) = ps @ m @ ss"
      by (auto simp: sublist_def)
    then have "writeSingleline (item # next_item # items) = (item @ ''; '' @ ps) @ m @ ss"
      by simp
    then show ?thesis unfolding Contains_def sublist_def by blast
  qed
qed

lemma Parse_eq:
  "Parse isURL cfg =
     (case aggregate (map quoted_message (violations isURL
             \<lparr>URL = index_map cfg ConfigKeyURL, Table = index_map cfg ConfigKeyTable,
              Key = index_map cfg ConfigKeyKey\<rparr>)) of
        None \<Rightarrow> Inr (\<lparr>URL = index_map cfg ConfigKeyURL, Table = index_map cfg ConfigKeyTable,
                       Key = index_map cfg ConfigKeyKey\<rparr>, None)
      | Some err \<Rightarrow> Inr (Config_zero, Some err))"
  by (simp add: Parse_def Validate_eq Let_def split: option.splits)

lemma RuneCountInString_Nil: "RuneCountInString [] = 0"
  by (subst RuneCountInString.simps) simp

lemma RuneCountInString_ascii_Cons:
  "(of_char c :: nat) < 128 \<Longrightarrow> RuneCountInString (c # s) = Suc (RuneCountInString s)"
  by (subst RuneCountInString.simps) (simp add: rune_size_def byte_at_def)

lemma RuneCountInString_ascii:
  "\<forall>c \<in> set s. (of_char c :: nat) < 128 \<Longrightarrow> RuneCountInString s = length s"
  by (induction s) (simp_all add: RuneCountInString_Nil RuneCountInString_ascii_Cons)

lemma RuneCountInString_replicate_a:
  "RuneCountInString (replicate n (CHR ''a'')) = n"
  by (simp add: RuneCountInString_ascii)

lemma rune_size_two:
  "rune_size (CHR 0xC3 # CHR 0xA9 # s) = 2"
  by (simp add: rune_size_def byte_at_def first_byte_def)

lemma RuneCountInString_e_acute:
  "RuneCountInString (concat (replicate n [CHR 0xC3, CHR 0xA9])) = n"
proof (induction n)
  case 0
  then show ?case by (simp add: RuneCountInString_Nil)
next
  case (Suc n)
  have "RuneCountInString (CHR 0xC3 # CHR 0xA9 # concat (replicate n [CHR 0xC3, CHR 0xA9]))
      = Suc (RuneCountInString (concat (replicate n [CHR 0xC3, CHR 0xA9])))"
    by (subst RuneCountInString.simps) (simp add: rune_size_two)
  with Suc show ?case by simp
qed

section \<open>The claims\<close>

lemma Validate_error_obtain:
  assumes "violations isURL c \<noteq> []"
  obtains e where "Validate isURL c = Inr (Some e)"
    and "Error e = writeSingleline (map quoted_message (violations isURL c))"
    and "map Error (errors_of e) = map quoted_message (violations isURL c)"
proof -
  from assms have "aggregate (map quoted_message (violations isURL c)) \<noteq> None"
    by (simp add: aggregate_None_iff)
  then obtain e where e: "aggregate (map quoted_message (violations isURL c)) = Some e"
    by blast
  show thesis
    using that [of e] Error_aggregate [OF e] e by (simp add: Validate_eq)
qed

text \<open>
  Claim C1. For every configuration with one or more rule violations, \<open>Validate\<close>
  returns a single error whose text contains the message of every violated rule, and not
  the first only; \<open>Parse\<close> returns the same error for every raw input that gives this
  configuration. The message of a violation is the one the code registers for it,
  \<open>quoted_message\<close>.
\<close>
theorem Validate_aggregates_every_violation:
  assumes "violations isURL c \<noteq> []"
  shows "\<exists>e. Validate isURL c = Inr (Some e) \<and>
             (\<forall>v \<in> set (violations isURL c). Contains (Error e) (quoted_message v)) \<and>
             (\<forall>cfg. \<lparr>URL = index_map cfg ConfigKeyURL, Table = index_map cfg ConfigKeyTable,
                      Key = index_map cfg ConfigKeyKey\<rparr> = c \<longrightarrow>
                    Parse isURL cfg = Inr (Config_zero, Some e))"
proof -
  from assms obtain e where e: "Validate isURL c = Inr (Some e)"
    and t: "Error e = writeSingleline (map quoted_message (violations isURL c))"
    by (rule Validate_error_obtain)
  have "Contains (Error e) (quoted_message v)" if "v \<in> set (violations isURL c)" for v
    using that by (simp add: t Contains_writeSingleline)
  moreover have "Parse isURL cfg = Inr (Config_zero, Some e)"
    if "\<lparr>URL = index_map cfg ConfigKeyURL, Table = index_map cfg ConfigKeyTable,
         Key = index_map cfg ConfigKeyKey\<rparr> = c" for cfg
    using that e by (simp add: Parse_def)
  ultimately show ?thesis using e by blast
qed

text \<open>
  The specification's example: \<open>url\<close> missing and a \<open>table\<close> of 64 characters.
\<close>

theorem Validate_aggregates_every_violation_witness:
  \<open>violations isURL_example \<lparr>URL = [], Table = replicate 64 (CHR ''a''), Key = []\<rparr> =
     [(''url'', Required), (''table'', TooLong)] \<and>
   (\<exists>e. Validate isURL_example \<lparr>URL = [], Table = replicate 64 (CHR ''a''), Key = []\<rparr> =
          Inr (Some e) \<and>
        Contains (Error e) ''"url" config value must be set'' \<and>
        Contains (Error e) ''"table" config value is too long'' \<and>
        Parse isURL_example [''table'' \<mapsto> replicate 64 (CHR ''a'')] =
          Inr (Config_zero, Some e))\<close>
proof -
  let ?c = "\<lparr>URL = [], Table = replicate 64 (CHR ''a''), Key = []\<rparr>"
  have v: "violations isURL_example ?c = [(''url'', Required), (''table'', TooLong)]"
    by (simp add: violations_def RuneCountInString_replicate_a RuneCountInString_Nil)
  then have "violations isURL_example ?c \<noteq> []" by simp
  from Validate_aggregates_every_violation [OF this] obtain e
    where e: "Validate isURL_example ?c = Inr (Some e)"
      and m: "\<forall>v \<in> set (violations isURL_example ?c). Contains (Error e) (quoted_message v)"
      and p: "\<forall>cfg. \<lparr>URL = index_map cfg ConfigKeyURL, Table = index_map cfg ConfigKeyTable,
                      Key = index_map cfg ConfigKeyKey\<rparr> = ?c \<longrightarrow>
                    Parse isURL_example cfg = Inr (Config_zero, Some e)"
    by blast
  from m have "Contains (Error e) (quoted_message (''url'', Required))"
    and "Contains (Error e) (quoted_message (''table'', TooLong))"
    by (simp_all add: v)
  moreover from p have
    "Parse isURL_example [''table'' \<mapsto> replicate 64 (CHR ''a'')] = Inr (Config_zero, Some e)"
    by (simp add: index_map_def ConfigKeyURL_def ConfigKeyTable_def ConfigKeyKey_def)
  ultimately show ?thesis using v e by (simp add: quoted_message_def)
qed

text \<open>
  Claim C2, amended. For every configuration that violates at least one rule, the
  messages in the aggregate error are, in order, those of the violated rules, each of the
  form \<open>"<field>" config value <reason>\<close>: the field name in lower case and between
  double quotes, and the reason \<open>must be set\<close> for Required, \<open>must be a valid url\<close>
  for InvalidURL and \<open>is too long\<close> for TooLong.
\<close>
theorem Validate_message_form:
  assumes "violations isURL c \<noteq> []"
  shows \<open>\<exists>e. Validate isURL c = Inr (Some e) \<and>
             map Error (errors_of e) = map quoted_message (violations isURL c) \<and>
             set (map Error (errors_of e)) \<subseteq>
               {''"url" config value must be set'',
                ''"url" config value must be a valid url'',
                ''"table" config value is too long'',
                ''"key" config value is too long''}\<close>
proof -
  from assms obtain e where e: "Validate isURL c = Inr (Some e)"
    and m: "map Error (errors_of e) = map quoted_message (violations isURL c)"
    by (rule Validate_error_obtain)
  have \<open>set (map Error (errors_of e)) \<subseteq>
               {''"url" config value must be set'',
                ''"url" config value must be a valid url'',
                ''"table" config value is too long'',
                ''"key" config value is too long''}\<close>
    unfolding m by (auto simp add: violations_def quoted_message_def)
  with e m show ?thesis by blast
qed

text \<open>An invalid \<open>url\<close> with a \<open>key\<close> of 64 characters.\<close>

theorem Validate_message_form_witness:
  \<open>\<exists>e. Validate isURL_example
          \<lparr>URL = ''not a url'', Table = [], Key = replicate 64 (CHR ''a'')\<rparr> = Inr (Some e) \<and>
        map Error (errors_of e) =
          [''"url" config value must be a valid url'', ''"key" config value is too long'']\<close>
proof -
  let ?c = "\<lparr>URL = ''not a url'', Table = [], Key = replicate 64 (CHR ''a'')\<rparr>"
  have v: "violations isURL_example ?c = [(''url'', InvalidURL), (''key'', TooLong)]"
    by (simp add: violations_def RuneCountInString_replicate_a RuneCountInString_Nil
        isURL_example_def)
  then have "violations isURL_example ?c \<noteq> []" by simp
  from Validate_message_form [OF this] show ?thesis
    by (auto simp add: v quoted_message_def)
qed

text \<open>
  The claim as stated, with the form \<open><field> config value <reason>\<close>, fails: the
  message for an empty \<open>url\<close> starts with a double quote and is not the claimed one.
\<close>

theorem Validate_message_form_counterexample:
  \<open>Validate isURL_example \<lparr>URL = [], Table = [], Key = []\<rparr> =
     Inr (Some (errorString ''"url" config value must be set'')) \<and>
   claimed_message (''url'', Required) = ''url config value must be set'' \<and>
   Error (errorString ''"url" config value must be set'') \<noteq> claimed_message (''url'', Required)\<close>
  by (simp add: Validate_eq violations_def RuneCountInString_Nil quoted_message_def
      claimed_message_def)

text \<open>
  Claim C3, amended. For every raw input in which the key \<open>url\<close> is absent or maps
  to the empty string, \<open>Parse\<close> fails, and the text of the error contains
  \<open>"url" config value must be set\<close>, the field name between double quotes.
\<close>
theorem Parse_url_required:
  assumes "cfg ConfigKeyURL = None \<or> cfg ConfigKeyURL = Some []"
  shows \<open>\<exists>e. Parse isURL cfg = Inr (Config_zero, Some e) \<and>
             Contains (Error e) ''"url" config value must be set''\<close>
proof -
  let ?c = "\<lparr>URL = index_map cfg ConfigKeyURL, Table = index_map cfg ConfigKeyTable,
             Key = index_map cfg ConfigKeyKey\<rparr>"
  from assms have u: "index_map cfg ConfigKeyURL = []"
    by (auto simp: index_map_def)
  then have v: "(''url'', Required) \<in> set (violations isURL ?c)"
    by (simp add: violations_def)
  then have "violations isURL ?c \<noteq> []" by auto
  then obtain e where e: "Validate isURL ?c = Inr (Some e)"
    and t: "Error e = writeSingleline (map quoted_message (violations isURL ?c))"
    by (rule Validate_error_obtain)
  from v have "quoted_message (''url'', Required) \<in> set (map quoted_message (violations isURL ?c))"
    by force
  then have "Contains (Error e) (quoted_message (''url'', Required))"
    by (simp only: t Contains_writeSingleline)
  with e show ?thesis by (simp add: Parse_def quoted_message_def)
qed

text \<open>The empty input, and an input with an explicit empty \<open>url\<close>.\<close>

theorem Parse_url_required_witness:
  \<open>(\<exists>e. Parse isURL_example Map.empty = Inr (Config_zero, Some e) \<and>
        Contains (Error e) ''"url" config value must be set'') \<and>
   (\<exists>e. Parse isURL_example [''url'' \<mapsto> [], ''table'' \<mapsto> ''t1''] = Inr (Config_zero, Some e) \<and>
        Contains (Error e) ''"url" config value must be set'')\<close>
  using Parse_url_required [of Map.empty isURL_example]
    Parse_url_required [of "[''url'' \<mapsto> [], ''table'' \<mapsto> ''t1'']" isURL_example]
  by (simp add: ConfigKeyURL_def)

text \<open>
  The substring of the claim as stated, without the quotes, does not occur in the text
  of the error that \<open>Parse\<close> returns for the empty input.
\<close>

theorem Parse_url_required_counterexample:
  \<open>Parse isURL_example Map.empty =
     Inr (Config_zero, Some (errorString ''"url" config value must be set'')) \<and>
   \<not> Contains (Error (errorString ''"url" config value must be set''))
       ''url config value must be set''\<close>
proof -
  have \<open>\<not> Contains ''"url" config value must be set'' ''url config value must be set''\<close>
    by code_simp
  then show ?thesis
    by (simp add: Parse_eq violations_def RuneCountInString_Nil quoted_message_def
        index_map_def)
qed

text \<open>
  Whatever the violations of \<open>table\<close> and \<open>key\<close>, the text of an error that starts
  with one of the two messages about \<open>url\<close> does not contain the other.
\<close>

lemma url_messages_exclusive:
  "\<forall>tl \<in> set [[], [(''table'', TooLong)], [(''key'', TooLong)],
               [(''table'', TooLong), (''key'', TooLong)]].
     \<not> Contains (writeSingleline (map quoted_message ((''url'', InvalidURL) # tl)))
         (quoted_message (''url'', Required)) \<and>
     \<not> Contains (writeSingleline (map quoted_message ((''url'', Required) # tl)))
         (quoted_message (''url'', InvalidURL))"
  by code_simp

lemma violations_cases:
  "\<exists>tl \<in> set [[], [(''table'', TooLong)], [(''key'', TooLong)],
               [(''table'', TooLong), (''key'', TooLong)]].
     violations isURL c =
       (if URL c = [] then [(''url'', Required)]
        else if isURL (URL c) then [] else [(''url'', InvalidURL)]) @ tl"
  by (simp add: violations_def)

text \<open>
  Claim C4, amended. The InvalidURL rule applies to a non-empty \<open>url\<close> only: for every
  raw input whose \<open>url\<close> is non-empty and not a valid URL, \<open>Parse\<close> fails with an
  error whose text contains \<open>"url" config value must be a valid url\<close> (the field name
  between double quotes) and not the Required message; an empty \<open>url\<close> gives the
  Required message and not the InvalidURL one.
\<close>
theorem Parse_url_invalid:
  \<open>(index_map cfg ConfigKeyURL \<noteq> [] \<and> \<not> isURL (index_map cfg ConfigKeyURL) \<longrightarrow>
      (\<exists>e. Parse isURL cfg = Inr (Config_zero, Some e) \<and>
           Contains (Error e) ''"url" config value must be a valid url'' \<and>
           \<not> Contains (Error e) ''"url" config value must be set'')) \<and>
    (index_map cfg ConfigKeyURL = [] \<longrightarrow>
      (\<exists>e. Parse isURL cfg = Inr (Config_zero, Some e) \<and>
           Contains (Error e) ''"url" config value must be set'' \<and>
           \<not> Contains (Error e) ''"url" config value must be a valid url''))\<close>
proof -
  let ?c = "\<lparr>URL = index_map cfg ConfigKeyURL, Table = index_map cfg ConfigKeyTable,
             Key = index_map cfg ConfigKeyKey\<rparr>"
  obtain tl where tl: "tl \<in> set [[], [(''table'', TooLong)], [(''key'', TooLong)],
               [(''table'', TooLong), (''key'', TooLong)]]"
    and v: "violations isURL ?c =
       (if URL ?c = [] then [(''url'', Required)]
        else if isURL (URL ?c) then [] else [(''url'', InvalidURL)]) @ tl"
    using violations_cases [of isURL ?c] by blast
  note ex = url_messages_exclusive [rule_format, OF tl]
  have inv: \<open>\<exists>e. Parse isURL cfg = Inr (Config_zero, Some e) \<and>
           Contains (Error e) ''"url" config value must be a valid url'' \<and>
           \<not> Contains (Error e) ''"url" config value must be set''\<close>
    if u: "index_map cfg ConfigKeyURL \<noteq> []" "\<not> isURL (index_map cfg ConfigKeyURL)"
  proof -
    from u v have v': "violations isURL ?c = (''url'', InvalidURL) # tl" by simp
    then have "violations isURL ?c \<noteq> []" by simp
    then obtain e where e: "Validate isURL ?c = Inr (Some e)"
      and t: "Error e = writeSingleline (map quoted_message (violations isURL ?c))"
      by (rule Validate_error_obtain)
    have "Contains (Error e) (quoted_message (''url'', InvalidURL))"
      unfolding t v' by (rule Contains_writeSingleline) simp
    moreover have "\<not> Contains (Error e) (quoted_message (''url'', Required))"
      unfolding t v' using ex by simp
    ultimately show ?thesis using e by (simp add: Parse_def quoted_message_def)
  qed
  have req: \<open>\<exists>e. Parse isURL cfg = Inr (Config_zero, Some e) \<and>
           Contains (Error e) ''"url" config value must be set'' \<and>
           \<not> Contains (Error e) ''"url" config value must be a valid url''\<close>
    if u: "index_map cfg ConfigKeyURL = []"
  proof -
    from u v have v': "violations isURL ?c = (''url'', Required) # tl" by simp
    then have "violations isURL ?c \<noteq> []" by simp
    then obtain e where e: "Validate isURL ?c = Inr (Some e)"
      and t: "Error e = writeSingleline (map quoted_message (violations isURL ?c))"
      by (rule Validate_error_obtain)
    have "Contains (Error e) (quoted_message (''url'', Required))"
      unfolding t v' by (rule Contains_writeSingleline) simp
    moreover have "\<not> Contains (Error e) (quoted_message (''url'', InvalidURL))"
      unfolding t v' using ex by simp
    ultimately show ?thesis using e by (simp add: Parse_def quoted_message_def)
  qed
  from inv req show ?thesis by blast
qed

text \<open>The \<open>url\<close> \<open>not a url\<close>, and an input without \<open>url\<close>.\<close>

theorem Parse_url_invalid_witness:
  \<open>(\<exists>e. Parse isURL_example [''url'' \<mapsto> ''not a url''] = Inr (Config_zero, Some e) \<and>
        Contains (Error e) ''"url" config value must be a valid url'' \<and>
        \<not> Contains (Error e) ''"url" config value must be set'') \<and>
   (\<exists>e. Parse isURL_example [''table'' \<mapsto> ''t1''] = Inr (Config_zero, Some e) \<and>
        Contains (Error e) ''"url" config value must be set'' \<and>
        \<not> Contains (Error e) ''"url" config value must be a valid url'')\<close>
  using Parse_url_invalid [of "[''url'' \<mapsto> ''not a url'']" isURL_example]
    Parse_url_invalid [of "[''table'' \<mapsto> ''t1'']" isURL_example]
  by (simp add: index_map_def ConfigKeyURL_def isURL_example_def)

text \<open>
  The substring of the claim as stated, without the quotes, does not occur in the text
  of the error for the \<open>url\<close> \<open>not a url\<close>.
\<close>

theorem Parse_url_invalid_counterexample:
  \<open>Parse isURL_example [''url'' \<mapsto> ''not a url''] =
     Inr (Config_zero, Some (errorString ''"url" config value must be a valid url'')) \<and>
   \<not> Contains (Error (errorString ''"url" config value must be a valid url''))
       ''url config value must be a valid url''\<close>
proof -
  have \<open>\<not> Contains ''"url" config value must be a valid url''
       ''url config value must be a valid url''\<close>
    by code_simp
  then show ?thesis
    by (simp add: Parse_eq violations_def RuneCountInString_Nil quoted_message_def
        index_map_def ConfigKeyURL_def ConfigKeyTable_def ConfigKeyKey_def isURL_example_def)
qed

lemma Parse_fails_with:
  assumes "v \<in> set (violations isURL \<lparr>URL = index_map cfg ConfigKeyURL,
             Table = index_map cfg ConfigKeyTable, Key = index_map cfg ConfigKeyKey\<rparr>)"
  shows "\<exists>e. Parse isURL cfg = Inr (Config_zero, Some e) \<and>
             Contains (Error e) (quoted_message v)"
proof -
  let ?c = "\<lparr>URL = index_map cfg ConfigKeyURL, Table = index_map cfg ConfigKeyTable,
             Key = index_map cfg ConfigKeyKey\<rparr>"
  from assms have "violations isURL ?c \<noteq> []" by auto
  then obtain e where e: "Validate isURL ?c = Inr (Some e)"
    and t: "Error e = writeSingleline (map quoted_message (violations isURL ?c))"
    by (rule Validate_error_obtain)
  from assms have "quoted_message v \<in> set (map quoted_message (violations isURL ?c))"
    by force
  then have "Contains (Error e) (quoted_message v)"
    by (simp only: t Contains_writeSingleline)
  with e show ?thesis by (simp add: Parse_def)
qed

lemma Parse_succeeds:
  assumes "index_map cfg ConfigKeyURL \<noteq> []"
    and "isURL (index_map cfg ConfigKeyURL)"
    and "RuneCountInString (index_map cfg ConfigKeyTable) \<le> 63"
    and "RuneCountInString (index_map cfg ConfigKeyKey) \<le> 63"
  shows "Parse isURL cfg =
           Inr (\<lparr>URL = index_map cfg ConfigKeyURL, Table = index_map cfg ConfigKeyTable,
                 Key = index_map cfg ConfigKeyKey\<rparr>, None)"
  using assms by (simp add: Parse_eq violations_def)

text \<open>
  Claim C5, amended. The limit of 63 is inclusive and counts characters (UTF-8 runes,
  not bytes): for every raw input with a valid non-empty \<open>url\<close>, a \<open>table\<close> of
  exactly 63 characters and a \<open>key\<close> of at most 63 characters, \<open>Parse\<close> succeeds;
  for every raw input whose \<open>table\<close> has 64 characters, \<open>Parse\<close> fails with an
  error whose text contains \<open>"table" config value is too long\<close>, the field name
  between double quotes; and the same with \<open>table\<close> and \<open>key\<close> exchanged.
\<close>
theorem Parse_max_boundary:
  \<open>(index_map cfg ConfigKeyURL \<noteq> [] \<and> isURL (index_map cfg ConfigKeyURL) \<and>
     RuneCountInString (index_map cfg ConfigKeyTable) = 63 \<and>
     RuneCountInString (index_map cfg ConfigKeyKey) \<le> 63 \<longrightarrow>
       Parse isURL cfg =
         Inr (\<lparr>URL = index_map cfg ConfigKeyURL, Table = index_map cfg ConfigKeyTable,
               Key = index_map cfg ConfigKeyKey\<rparr>, None)) \<and>
    (RuneCountInString (index_map cfg ConfigKeyTable) = 64 \<longrightarrow>
       (\<exists>e. Parse isURL cfg = Inr (Config_zero, Some e) \<and>
            Contains (Error e) ''"table" config value is too long'')) \<and>
    (index_map cfg ConfigKeyURL \<noteq> [] \<and> isURL (index_map cfg ConfigKeyURL) \<and>
     RuneCountInString (index_map cfg ConfigKeyTable) \<le> 63 \<and>
     RuneCountInString (index_map cfg ConfigKeyKey) = 63 \<longrightarrow>
       Parse isURL cfg =
         Inr (\<lparr>URL = index_map cfg ConfigKeyURL, Table = index_map cfg ConfigKeyTable,
               Key = index_map cfg ConfigKeyKey\<rparr>, None)) \<and>
    (RuneCountInString (index_map cfg ConfigKeyKey) = 64 \<longrightarrow>
       (\<exists>e. Parse isURL cfg = Inr (Config_zero, Some e) \<and>
            Contains (Error e) ''"key" config value is too long''))\<close>
proof -
  let ?c = "\<lparr>URL = index_map cfg ConfigKeyURL, Table = index_map cfg ConfigKeyTable,
             Key = index_map cfg ConfigKeyKey\<rparr>"
  have t: \<open>\<exists>e. Parse isURL cfg = Inr (Config_zero, Some e) \<and>
            Contains (Error e) ''"table" config value is too long''\<close>
    if "RuneCountInString (index_map cfg ConfigKeyTable) = 64"
  proof -
    from that have "(''table'', TooLong) \<in> set (violations isURL ?c)"
      by (simp add: violations_def)
    from Parse_fails_with [OF this] show ?thesis by (simp add: quoted_message_def)
  qed
  have k: \<open>\<exists>e. Parse isURL cfg = Inr (Config_zero, Some e) \<and>
            Contains (Error e) ''"key" config value is too long''\<close>
    if "RuneCountInString (index_map cfg ConfigKeyKey) = 64"
  proof -
    from that have "(''key'', TooLong) \<in> set (violations isURL ?c)"
      by (simp add: violations_def)
    from Parse_fails_with [OF this] show ?thesis by (simp add: quoted_message_def)
  qed
  from t k show ?thesis by (simp add: Parse_succeeds)
qed

text \<open>Both fields of 63 characters, and both of 64.\<close>

theorem Parse_max_boundary_witness:
  \<open>Parse isURL_example [''url'' \<mapsto> ''https://materialize.example.com'',
                        ''table'' \<mapsto> replicate 63 (CHR ''a''),
                        ''key'' \<mapsto> replicate 63 (CHR ''a'')] =
     Inr (\<lparr>URL = ''https://materialize.example.com'', Table = replicate 63 (CHR ''a''),
           Key = replicate 63 (CHR ''a'')\<rparr>, None) \<and>
   (\<exists>e. Parse isURL_example [''url'' \<mapsto> ''https://materialize.example.com'',
                            ''table'' \<mapsto> replicate 64 (CHR ''a''),
                            ''key'' \<mapsto> replicate 64 (CHR ''a'')] =
          Inr (Config_zero, Some e) \<and>
        Contains (Error e) ''"table" config value is too long'' \<and>
        Contains (Error e) ''"key" config value is too long'')\<close>
proof -
  let ?m = "[''url'' \<mapsto> ''https://materialize.example.com'',
             ''table'' \<mapsto> replicate 63 (CHR ''a''), ''key'' \<mapsto> replicate 63 (CHR ''a'')]"
  let ?n = "[''url'' \<mapsto> ''https://materialize.example.com'',
             ''table'' \<mapsto> replicate 64 (CHR ''a''), ''key'' \<mapsto> replicate 64 (CHR ''a'')]"
  have m: "index_map ?m ConfigKeyURL = ''https://materialize.example.com''"
    "index_map ?m ConfigKeyTable = replicate 63 (CHR ''a'')"
    "index_map ?m ConfigKeyKey = replicate 63 (CHR ''a'')"
    by (simp_all add: index_map_def ConfigKeyURL_def ConfigKeyTable_def ConfigKeyKey_def)
  have n: "index_map ?n ConfigKeyTable = replicate 64 (CHR ''a'')"
    "index_map ?n ConfigKeyKey = replicate 64 (CHR ''a'')"
    by (simp_all add: index_map_def ConfigKeyURL_def ConfigKeyTable_def ConfigKeyKey_def)
  from Parse_max_boundary [of ?m isURL_example]
  have 1: "Parse isURL_example ?m =
     Inr (\<lparr>URL = ''https://materialize.example.com'', Table = replicate 63 (CHR ''a''),
           Key = replicate 63 (CHR ''a'')\<rparr>, None)"
    unfolding m by (simp add: RuneCountInString_replicate_a isURL_example_def)
  from Parse_max_boundary [of ?n isURL_example]
  obtain e e' where e: \<open>Parse isURL_example ?n = Inr (Config_zero, Some e)\<close>
     \<open>Contains (Error e) ''"table" config value is too long''\<close>
     and e': \<open>Parse isURL_example ?n = Inr (Config_zero, Some e')\<close>
     \<open>Contains (Error e') ''"key" config value is too long''\<close>
    unfolding n by (auto simp add: RuneCountInString_replicate_a)
  from e e' have "e' = e" by simp
  with 1 e e' show ?thesis by blast
qed

text \<open>
  The claim as stated fails in three ways. A \<open>table\<close> of 63 characters beside a
  \<open>key\<close> of 64 does not succeed. For a \<open>table\<close> of 64 characters the text of the
  error does not contain the substring without the quotes. And a \<open>table\<close> of 32
  two-byte characters, 64 bytes long, is accepted: the limit is on characters.
\<close>

theorem Parse_max_boundary_counterexample:
  \<open>Parse isURL_example [''url'' \<mapsto> ''https://materialize.example.com'',
                        ''table'' \<mapsto> replicate 63 (CHR ''a''),
                        ''key'' \<mapsto> replicate 64 (CHR ''a'')] =
     Inr (Config_zero, Some (errorString ''"key" config value is too long'')) \<and>
   Parse isURL_example [''url'' \<mapsto> ''https://materialize.example.com'',
                        ''table'' \<mapsto> replicate 64 (CHR ''a'')] =
     Inr (Config_zero, Some (errorString ''"table" config value is too long'')) \<and>
   \<not> Contains (Error (errorString ''"table" config value is too long''))
       ''table config value is too long'' \<and>
   length (concat (replicate 32 [CHR 0xC3, CHR 0xA9])) = 64 \<and>
   Parse isURL_example [''url'' \<mapsto> ''https://materialize.example.com'',
                        ''table'' \<mapsto> concat (replicate 32 [CHR 0xC3, CHR 0xA9])] =
     Inr (\<lparr>URL = ''https://materialize.example.com'',
           Table = concat (replicate 32 [CHR 0xC3, CHR 0xA9]), Key = []\<rparr>, None)\<close>
proof -
  have c: \<open>\<not> Contains ''"table" config value is too long'' ''table config value is too long''\<close>
    by code_simp
  have l: "length (concat (replicate n [CHR 0xC3, CHR 0xA9])) = 2 * n" for n
    by (induction n) simp_all
  show ?thesis
    using c
    by (simp add: Parse_eq violations_def RuneCountInString_Nil RuneCountInString_replicate_a
        RuneCountInString_e_acute l quoted_message_def index_map_def ConfigKeyURL_def
        ConfigKeyTable_def ConfigKeyKey_def isURL_example_def
        del: concat.simps)
qed

text \<open>
  Claim C6. The messages of the violations stand in the aggregate error in the order in
  which the fields are declared, \<open>url\<close>, then \<open>table\<close>, then \<open>key\<close>: the error
  returned is the aggregate of this list, its text is the list written with \<open>; \<close>
  between the messages, and its errors are the messages in this order. The result is a
  function of the configuration (and of the URL check), so it is the same on every call.
\<close>
theorem Validate_message_order:
  \<open>let ms =
      (if URL c = [] then [''"url" config value must be set'']
       else if isURL (URL c) then [] else [''"url" config value must be a valid url'']) @
      (if RuneCountInString (Table c) \<le> 63 then [] else [''"table" config value is too long'']) @
      (if RuneCountInString (Key c) \<le> 63 then [] else [''"key" config value is too long''])
   in Validate isURL c = Inr (aggregate ms) \<and>
      map_option Error (aggregate ms) = (if ms = [] then None else Some (writeSingleline ms)) \<and>
      map_option (map Error \<circ> errors_of) (aggregate ms) = (if ms = [] then None else Some ms)\<close>
proof -
  have a: "map_option Error (aggregate ms) = (if ms = [] then None else Some (writeSingleline ms))"
    for ms
  proof (cases "aggregate ms")
    case None
    then show ?thesis by (simp add: aggregate_None_iff)
  next
    case (Some e)
    then have "ms \<noteq> []" by (auto simp: aggregate_None_iff)
    with Some Error_aggregate(1) [OF Some] show ?thesis by simp
  qed
  have b: "map_option (map Error \<circ> errors_of) (aggregate ms) = (if ms = [] then None else Some ms)"
    for ms
  proof (cases "aggregate ms")
    case None
    then show ?thesis by (simp add: aggregate_None_iff)
  next
    case (Some e)
    then have "ms \<noteq> []" by (auto simp: aggregate_None_iff)
    with Some Error_aggregate(2) [OF Some] show ?thesis by simp
  qed
  have v: \<open>map quoted_message (violations isURL c) =
      (if URL c = [] then [''"url" config value must be set'']
       else if isURL (URL c) then [] else [''"url" config value must be a valid url'']) @
      (if RuneCountInString (Table c) \<le> 63 then [] else [''"table" config value is too long'']) @
      (if RuneCountInString (Key c) \<le> 63 then [] else [''"key" config value is too long''])\<close>
    by (simp add: violations_def quoted_message_def)
  show ?thesis
    unfolding Let_def v [symmetric] by (intro conjI Validate_eq a b)
qed

text \<open>All three fields in violation: the error and its text.\<close>

theorem Validate_message_order_witness:
  \<open>Validate isURL_example
      \<lparr>URL = [], Table = replicate 70 (CHR ''a''), Key = replicate 64 (CHR ''b'')\<rparr> =
     Inr (Some (multiError
       [errorString ''"url" config value must be set'',
        errorString ''"table" config value is too long'',
        errorString ''"key" config value is too long''])) \<and>
   Error (multiError
       [errorString ''"url" config value must be set'',
        errorString ''"table" config value is too long'',
        errorString ''"key" config value is too long'']) =
     ''"url" config value must be set; "table" config value is too long; "key" config value is too long''\<close>
  using Validate_message_order [of "\<lparr>URL = [], Table = replicate 70 (CHR ''a''),
      Key = replicate 64 (CHR ''b'')\<rparr>" isURL_example]
  by (simp add: RuneCountInString_ascii)

text \<open>
  Claim C7, amended. For every raw input with a valid non-empty \<open>url\<close> and a
  \<open>table\<close> and a \<open>key\<close> of at most 63 characters each, \<open>Parse\<close> succeeds and
  returns a configuration whose fields are the raw input values unchanged (the empty
  string for an absent key); nothing is trimmed.
\<close>
theorem Parse_round_trip:
  assumes "index_map cfg ConfigKeyURL \<noteq> []"
    and "isURL (index_map cfg ConfigKeyURL)"
    and "RuneCountInString (index_map cfg ConfigKeyTable) \<le> 63"
    and "RuneCountInString (index_map cfg ConfigKeyKey) \<le> 63"
  shows "\<exists>c. Parse isURL cfg = Inr (c, None) \<and>
             URL c = index_map cfg ConfigKeyURL \<and>
             Table c = index_map cfg ConfigKeyTable \<and>
             Key c = index_map cfg ConfigKeyKey"
  using assms by (simp add: Parse_succeeds)

text \<open>The example of the specification.\<close>

theorem Parse_round_trip_witness:
  "Parse isURL_example
     [''url'' \<mapsto> ''https://materialize.example.com'', ''table'' \<mapsto> ''t1'', ''key'' \<mapsto> ''k1''] =
   Inr (\<lparr>URL = ''https://materialize.example.com'', Table = ''t1'', Key = ''k1''\<rparr>, None)"
proof -
  let ?m = "[''url'' \<mapsto> ''https://materialize.example.com'', ''table'' \<mapsto> ''t1'',
             ''key'' \<mapsto> ''k1'']"
  have m: "index_map ?m ConfigKeyURL = ''https://materialize.example.com''"
    "index_map ?m ConfigKeyTable = ''t1''" "index_map ?m ConfigKeyKey = ''k1''"
    by (simp_all add: index_map_def ConfigKeyURL_def ConfigKeyTable_def ConfigKeyKey_def)
  have "\<exists>c. Parse isURL_example ?m = Inr (c, None) \<and>
             URL c = index_map ?m ConfigKeyURL \<and>
             Table c = index_map ?m ConfigKeyTable \<and>
             Key c = index_map ?m ConfigKeyKey"
    by (rule Parse_round_trip)
       (simp_all add: m isURL_example_def RuneCountInString_ascii)
  then show ?thesis unfolding m by auto
qed

text \<open>
  The claim as stated, with the trimmed values, fails: a \<open>table\<close> with a leading and
  a trailing space is returned with its spaces.
\<close>

theorem Parse_round_trip_counterexample:
  "Parse isURL_example
     [''url'' \<mapsto> ''https://materialize.example.com'', ''table'' \<mapsto> '' t1 ''] =
   Inr (\<lparr>URL = ''https://materialize.example.com'', Table = '' t1 '', Key = []\<rparr>, None) \<and>
   TrimSpace '' t1 '' = ''t1'' \<and>
   Table \<lparr>URL = ''https://materialize.example.com'', Table = '' t1 '', Key = []\<rparr> \<noteq>
     TrimSpace (index_map [''url'' \<mapsto> ''https://materialize.example.com'',
                           ''table'' \<mapsto> '' t1 ''] ConfigKeyTable)"
proof -
  have t: "TrimSpace '' t1 '' = ''t1''"
    by (simp add: TrimSpace_def isSpace_def)
  show ?thesis
    by (simp add: t Parse_eq violations_def RuneCountInString_Nil RuneCountInString_ascii
        index_map_def ConfigKeyURL_def ConfigKeyTable_def ConfigKeyKey_def isURL_example_def)
qed

text \<open>
  Claim C8. \<open>Parse\<close> is a function of the values at the keys \<open>url\<close>, \<open>table\<close>
  and \<open>key\<close> only, an absent key counting as the empty string: two raw inputs that
  agree there give the same result, whatever else they hold. (The model has no state
  besides its arguments, so two calls on the same input agree as well.)
\<close>
theorem Parse_depends_on_three_keys:
  assumes "index_map cfg ConfigKeyURL = index_map cfg' ConfigKeyURL"
    and "index_map cfg ConfigKeyTable = index_map cfg' ConfigKeyTable"
    and "index_map cfg ConfigKeyKey = index_map cfg' ConfigKeyKey"
  shows "Parse isURL cfg = Parse isURL cfg'"
  using assms by (simp add: Parse_def)

text \<open>
  Two inputs that differ in an explicit empty \<open>table\<close> and in unrecognised keys.
\<close>

theorem Parse_depends_on_three_keys_witness:
  "Parse isURL_example [''url'' \<mapsto> ''https://materialize.example.com'', ''key'' \<mapsto> ''k1''] =
   Parse isURL_example [''url'' \<mapsto> ''https://materialize.example.com'', ''key'' \<mapsto> ''k1'',
                        ''table'' \<mapsto> [], ''password'' \<mapsto> ''secret'', ''URL'' \<mapsto> ''x'']"
  by (rule Parse_depends_on_three_keys)
     (simp_all add: index_map_def ConfigKeyURL_def ConfigKeyTable_def ConfigKeyKey_def)

text \<open>
  Claim C9. Whenever validation of the configuration built from the raw input fails,
  \<open>Parse\<close> returns that error with the zero value \<open>Config{}\<close>, whose three fields
  are empty: the values read from the input are not returned beside an error.
\<close>
theorem Parse_zero_config_on_error:
  assumes "Validate isURL \<lparr>URL = index_map cfg ConfigKeyURL,
                            Table = index_map cfg ConfigKeyTable,
                            Key = index_map cfg ConfigKeyKey\<rparr> = Inr (Some err)"
  shows "Parse isURL cfg = Inr (Config_zero, Some err) \<and>
         URL Config_zero = [] \<and> Table Config_zero = [] \<and> Key Config_zero = []"
  using assms by (simp add: Parse_def Config_zero_def)

text \<open>
  An input without \<open>url\<close>: the record built has the table \<open>t1\<close> and the key
  \<open>k1\<close>, the configuration returned has neither.
\<close>

theorem Parse_zero_config_on_error_witness:
  \<open>Validate isURL_example \<lparr>URL = [], Table = ''t1'', Key = ''k1''\<rparr> =
     Inr (Some (errorString ''"url" config value must be set'')) \<and>
   Parse isURL_example [''table'' \<mapsto> ''t1'', ''key'' \<mapsto> ''k1''] =
     Inr (\<lparr>URL = [], Table = [], Key = []\<rparr>,
          Some (errorString ''"url" config value must be set''))\<close>
proof -
  have v: \<open>Validate isURL_example
        \<lparr>URL = index_map [''table'' \<mapsto> ''t1'', ''key'' \<mapsto> ''k1''] ConfigKeyURL,
         Table = index_map [''table'' \<mapsto> ''t1'', ''key'' \<mapsto> ''k1''] ConfigKeyTable,
         Key = index_map [''table'' \<mapsto> ''t1'', ''key'' \<mapsto> ''k1''] ConfigKeyKey\<rparr> =
      Inr (Some (errorString ''"url" config value must be set''))\<close>
    by (simp add: Validate_eq violations_def index_map_def ConfigKeyURL_def
        ConfigKeyTable_def ConfigKeyKey_def RuneCountInString_ascii quoted_message_def)
  from Parse_zero_config_on_error [OF v] v show ?thesis
    by (simp add: Config_zero_def index_map_def ConfigKeyURL_def
        ConfigKeyTable_def ConfigKeyKey_def)
qed

text \<open>
  Claim C10. The translator \<open>en\<close> is found and the registration of the translations
  returns no error, on any validator and translator, so the two internal error branches of
  \<open>Validate\<close> are never taken; \<open>Validate\<close> returns (it does not panic), and it
  returns an error if and only if one of the four rules is violated: \<open>url\<close> empty,
  \<open>url\<close> non-empty and not a valid URL, \<open>table\<close> of more than 63 characters,
  \<open>key\<close> of more than 63 characters. The error is never \<open>translator not found\<close>.
\<close>
theorem Validate_error_iff_violation:
  "snd (GetTranslator (ut_New en_New [en_New]) ''en'') \<and>
   fst (registerTranslations v t) = None \<and>
   (\<exists>r. Validate isURL c = Inr r) \<and>
   ((\<exists>e. Validate isURL c = Inr (Some e)) \<longleftrightarrow>
      (URL c = [] \<or> URL c \<noteq> [] \<and> \<not> isURL (URL c) \<or>
       63 < RuneCountInString (Table c) \<or> 63 < RuneCountInString (Key c))) \<and>
   Validate isURL c \<noteq> Inr (Some (errorString ''translator not found''))"
proof -
  have 1: "snd (GetTranslator (ut_New en_New [en_New]) ''en'')"
    by (simp add: GetTranslator_en)
  have 2: "fst (registerTranslations v t) = None"
    by (simp add: registerTranslations_eq)
  have "(\<exists>e. Validate isURL c = Inr (Some e)) \<longleftrightarrow> violations isURL c \<noteq> []"
    using aggregate_None_iff [of "map quoted_message (violations isURL c)"]
    by (cases "aggregate (map quoted_message (violations isURL c))")
       (simp_all add: Validate_eq)
  also have "violations isURL c \<noteq> [] \<longleftrightarrow>
      (URL c = [] \<or> URL c \<noteq> [] \<and> \<not> isURL (URL c) \<or>
       63 < RuneCountInString (Table c) \<or> 63 < RuneCountInString (Key c))"
    by (simp add: violations_def)
  finally have 3: "(\<exists>e. Validate isURL c = Inr (Some e)) \<longleftrightarrow>
      (URL c = [] \<or> URL c \<noteq> [] \<and> \<not> isURL (URL c) \<or>
       63 < RuneCountInString (Table c) \<or> 63 < RuneCountInString (Key c))" .
  have 4: "Validate isURL c \<noteq> Inr (Some (errorString ''translator not found''))"
  proof
    assume "Validate isURL c = Inr (Some (errorString ''translator not found''))"
    then have a: "aggregate (map quoted_message (violations isURL c)) =
        Some (errorString ''translator not found'')"
      by (simp add: Validate_eq)
    from Error_aggregate(2) [OF a]
    have "map quoted_message (violations isURL c) = [''translator not found'']" by simp
    then have "''translator not found'' \<in> quoted_message ` set (violations isURL c)"
      by (metis list.set_intros(1) set_map)
    then show False by (auto simp: quoted_message_def)
  qed
  from 1 2 3 4 Validate_returns [of isURL c] show ?thesis by blast
qed

end
